theory Spec2Isabelle
  imports Main
begin

section \<open>GitHub Repository Explorer (src/app/page.tsx)\<close>

text \<open>
  The source file holds two variants of one React component.  The first (lines 1-238,
  suffix \<open>_query\<close> below) fetches the repositories of a user through \<open>useQuery\<close>; the
  second (lines 239-495, suffix \<open>_static\<close>) keeps its own component state and, after a
  simulated delay, shows a fixed list.  Each variant is embedded as a state machine over
  the component state (one step per browser event) together with a function from the
  state to the rendered page.

  The values that the JavaScript runtime supplies and that the source does not fix are
  parameters of the model, collected in the record \<open>env\<close>: the UTC offset of the host's
  time zone, the host's default number format, and the reading of the date strings
  that the model does not parse itself.
\<close>

subsection \<open>Text and numbers\<close>

text \<open>
  Text is \<open>string\<close>; a character is one code unit below 256.  The white space and line
  terminator characters of ECMAScript in that range are TAB, LF, VT, FF, CR, SP and NBSP;
  \<open>String.prototype.trim\<close> removes them from both ends.
\<close>

definition isWhiteSpace :: "char \<Rightarrow> bool" where
  "isWhiteSpace c = (of_char c \<in> {9, 10, 11, 12, 13, 32, 160 :: nat})"

definition trim :: "string \<Rightarrow> string" where
  "trim s = rev (dropWhile isWhiteSpace (rev (dropWhile isWhiteSpace s)))"

text \<open>The decimal text of a number, as \<open>{n}\<close> in JSX or \<open>${n}\<close> in a template gives it.\<close>

definition digit_char :: "nat \<Rightarrow> char" where
  "digit_char d = ''0123456789'' ! (d mod 10)"

fun string_of_nat :: "nat \<Rightarrow> string" where
  "string_of_nat n =
     (if n < 10 then [digit_char n]
      else string_of_nat (n div 10) @ [digit_char (n mod 10)])"

declare string_of_nat.simps [simp del]

text \<open>Grouping by thousands, the en-US form of \<open>Number.prototype.toLocaleString\<close>.\<close>

fun group_thousands :: "string \<Rightarrow> string" where
  "group_thousands s =
     (if length s \<le> 3 then s
      else group_thousands (take (length s - 3) s) @ '','' @ drop (length s - 3) s)"

declare group_thousands.simps [simp del]

definition toLocaleString_enUS :: "nat \<Rightarrow> string" where
  "toLocaleString_enUS n = group_thousands (string_of_nat n)"


subsection \<open>The runtime environment\<close>

record env =
  localOffset :: "int \<Rightarrow> int"
    \<comment> \<open>minutes east of UTC of the host's time zone at an instant (ms since the epoch)\<close>
  toLocaleString :: "nat \<Rightarrow> string"
    \<comment> \<open>\<open>Number.prototype.toLocaleString()\<close> in the host's default locale\<close>
  fallbackParse :: "string \<Rightarrow> int option"
    \<comment> \<open>what \<open>new Date(s)\<close> makes of a string outside the two forms modelled below
       (the rest of the ECMAScript format, and the engine's own formats); \<open>None\<close> is NaN\<close>

text \<open>
  Three hosts on which the properties below are evaluated: one in UTC and one eight
  hours west of it, both with the en-US number format, and one an hour east of UTC
  with the de-DE number format.
\<close>

definition env_UTC :: env where
  "env_UTC = \<lparr>localOffset = (\<lambda>t. 0), toLocaleString = toLocaleString_enUS,
              fallbackParse = (\<lambda>s. None)\<rparr>"

definition env_Pacific :: env where
  "env_Pacific = \<lparr>localOffset = (\<lambda>t. - 480), toLocaleString = toLocaleString_enUS,
                  fallbackParse = (\<lambda>s. None)\<rparr>"


subsection \<open>Dates: \<open>new Date(s).toLocaleDateString("en-US", ...)\<close>\<close>

text \<open>
  \<open>new Date(s)\<close> reads the ECMAScript date-time string format.  The two forms the
  program meets are modelled: the date-only form \<open>YYYY-MM-DD\<close> (the static list), which
  is UTC midnight, and \<open>YYYY-MM-DDTHH:mm:ssZ\<close> (the API's \<open>updated_at\<close>).  Every other
  string is left to \<open>fallbackParse\<close>.  Days are counted in the proleptic Gregorian
  calendar, day 0 being 1970-01-01.
\<close>

definition msPerDay :: int where
  "msPerDay = 86400000"

definition number_of :: "string \<Rightarrow> nat option" where
  "number_of s =
     (if s \<noteq> [] \<and> (\<forall>c \<in> set s. 48 \<le> (of_char c :: nat) \<and> (of_char c :: nat) \<le> 57)
      then Some (foldl (\<lambda>a c. 10 * a + (of_char c - 48)) 0 s)
      else None)"

definition InLeapYear :: "int \<Rightarrow> bool" where
  "InLeapYear y = (y mod 4 = 0 \<and> (y mod 100 \<noteq> 0 \<or> y mod 400 = 0))"

definition DaysInMonth :: "int \<Rightarrow> int \<Rightarrow> int" where
  "DaysInMonth y m =
     (if m = 2 then (if InLeapYear y then 29 else 28)
      else if m = 4 \<or> m = 6 \<or> m = 9 \<or> m = 11 then 30 else 31)"

definition days_from_civil :: "int \<Rightarrow> int \<Rightarrow> int \<Rightarrow> int" where
  "days_from_civil y m d =
     (let y' = (if m \<le> 2 then y - 1 else y);
          era = y' div 400;
          yoe = y' - era * 400;
          doy = (153 * (if m > 2 then m - 3 else m + 9) + 2) div 5 + d - 1;
          doe = yoe * 365 + yoe div 4 - yoe div 100 + doy
      in era * 146097 + doe - 719468)"

definition civil_from_days :: "int \<Rightarrow> int \<times> int \<times> int" where
  "civil_from_days z =
     (let z' = z + 719468;
          era = z' div 146097;
          doe = z' - era * 146097;
          yoe = (doe - doe div 1460 + doe div 36524 - doe div 146096) div 365;
          doy = doe - (365 * yoe + yoe div 4 - yoe div 100);
          mp = (5 * doy + 2) div 153;
          d = doy - (153 * mp + 2) div 5 + 1;
          m = (if mp < 10 then mp + 3 else mp - 9);
          y = yoe + era * 400
      in (if m \<le> 2 then y + 1 else y, m, d))"

definition parse_date :: "string \<Rightarrow> int option" where
  "parse_date s =
     (if length s = 10 \<and> s ! 4 = CHR ''-'' \<and> s ! 7 = CHR ''-'' then
        (case (number_of (take 4 s), number_of (take 2 (drop 5 s)), number_of (drop 8 s)) of
           (Some y, Some m, Some d) \<Rightarrow>
             if 1 \<le> m \<and> m \<le> 12 \<and> 1 \<le> d \<and> int d \<le> DaysInMonth (int y) (int m)
             then Some (days_from_civil (int y) (int m) (int d) * msPerDay)
             else None
         | _ \<Rightarrow> None)
      else None)"

definition parse_time :: "string \<Rightarrow> int option" where
  "parse_time s =
     (if length s = 8 \<and> s ! 2 = CHR '':'' \<and> s ! 5 = CHR '':'' then
        (case (number_of (take 2 s), number_of (take 2 (drop 3 s)), number_of (drop 6 s)) of
           (Some h, Some mi, Some sec) \<Rightarrow>
             if (h \<le> 23 \<and> mi \<le> 59 \<and> sec \<le> 59) \<or> (h = 24 \<and> mi = 0 \<and> sec = 0)
             then Some (int h * 3600000 + int mi * 60000 + int sec * 1000)
             else None
         | _ \<Rightarrow> None)
      else None)"

definition parse_iso :: "string \<Rightarrow> int option" where
  "parse_iso s =
     (if length s = 10 then parse_date s
      else if length s = 20 \<and> s ! 10 = CHR ''T'' \<and> s ! 19 = CHR ''Z'' then
        (case (parse_date (take 10 s), parse_time (take 8 (drop 11 s))) of
           (Some day, Some ms) \<Rightarrow> Some (day + ms)
         | _ \<Rightarrow> None)
      else None)"

definition Date_parse :: "env \<Rightarrow> string \<Rightarrow> int option" where
  "Date_parse e s = (case parse_iso s of Some t \<Rightarrow> Some t | None \<Rightarrow> fallbackParse e s)"

definition month_short :: "int \<Rightarrow> string" where
  "month_short m =
     (if m = 1 then ''Jan'' else if m = 2 then ''Feb'' else if m = 3 then ''Mar''
      else if m = 4 then ''Apr'' else if m = 5 then ''May'' else if m = 6 then ''Jun''
      else if m = 7 then ''Jul'' else if m = 8 then ''Aug'' else if m = 9 then ''Sep''
      else if m = 10 then ''Oct'' else if m = 11 then ''Nov'' else ''Dec'')"

text \<open>
  With no \<open>timeZone\<close> option the date is the one of the host's local time.  The options
  \<open>month: "short", day: "numeric", year: "numeric"\<close> give, in en-US, the pattern
  \<open>MMM d, y\<close>, where \<open>y\<close> is the year of the era.
\<close>

definition local_date :: "env \<Rightarrow> int \<Rightarrow> int \<times> int \<times> int" where
  "local_date e t = civil_from_days ((t + localOffset e t * 60000) div msPerDay)"

definition toLocaleDateString_enUS :: "env \<Rightarrow> int \<Rightarrow> string" where
  "toLocaleDateString_enUS e t =
     (case local_date e t of (y, m, d) \<Rightarrow>
        month_short m @ '' '' @ string_of_nat (nat d) @ '', ''
          @ string_of_nat (nat (if 1 \<le> y then y else 1 - y)))"

text \<open>\<open>formatDate\<close> (lines 90-96 and 355-361, the same in both variants).\<close>

definition formatDate :: "env \<Rightarrow> string \<Rightarrow> string" where
  "formatDate e dateString =
     (case Date_parse e dateString of
        None \<Rightarrow> ''Invalid Date''
      | Some t \<Rightarrow> toLocaleDateString_enUS e t)"

subsection \<open>Property reads on the colour table\<close>

text \<open>
  \<open>languageColors\<close> is an object literal, so \<open>languageColors[k]\<close> is an ordinary
  property read: the object's own property \<open>k\<close> if it has one, else the property \<open>k\<close>
  that the object inherits from \<open>Object.prototype\<close>, else \<open>undefined\<close>.  An inherited
  member is a function or an object; the model records only which one it is.
\<close>

datatype jsvalue = String string | Object string | Undefined

definition Object_prototype :: "string list" where
  "Object_prototype =
     [''constructor'', ''hasOwnProperty'', ''isPrototypeOf'', ''propertyIsEnumerable'',
      ''toLocaleString'', ''toString'', ''valueOf'', ''__proto__'',
      ''__defineGetter__'', ''__defineSetter__'', ''__lookupGetter__'', ''__lookupSetter__'']"

definition get_property :: "(string \<times> string) list \<Rightarrow> string \<Rightarrow> jsvalue" where
  "get_property obj k =
     (case map_of obj k of
        Some v \<Rightarrow> String v
      | None \<Rightarrow> if k \<in> set Object_prototype then Object k else Undefined)"

definition truthy :: "jsvalue \<Rightarrow> bool" where
  "truthy v = (case v of String s \<Rightarrow> s \<noteq> [] | Object n \<Rightarrow> True | Undefined \<Rightarrow> False)"

text \<open>The tables of lines 34-43 and of lines 321-328.\<close>

definition languageColors_query :: "(string \<times> string) list" where
  "languageColors_query =
     [(''TypeScript'', ''bg-blue-500''), (''JavaScript'', ''bg-yellow-500''),
      (''Python'', ''bg-green-500''), (''Shell'', ''bg-gray-500''),
      (''Go'', ''bg-cyan-500''), (''Rust'', ''bg-orange-500''),
      (''Java'', ''bg-red-500''), (''Cpp'', ''bg-purple-500'')]"

definition languageColors_static :: "(string \<times> string) list" where
  "languageColors_static =
     [(''TypeScript'', ''bg-blue-500''), (''JavaScript'', ''bg-yellow-500''),
      (''Python'', ''bg-green-500''), (''Shell'', ''bg-gray-500''),
      (''Go'', ''bg-cyan-500''), (''Rust'', ''bg-orange-500'')]"

text \<open>\<open>languageColors[repo.language] || "bg-gray-400"\<close> (lines 190 and 448).\<close>

definition language_color :: "(string \<times> string) list \<Rightarrow> string \<Rightarrow> jsvalue" where
  "language_color tbl lang =
     (let v = get_property tbl lang in if truthy v then v else String ''bg-gray-400'')"

subsection \<open>Repository records and cards\<close>

record Owner =
  login :: string
  avatar_url :: string

text \<open>The type \<open>GitHubRepo\<close> of lines 18-32; \<open>string | null\<close> is an option.\<close>

record GitHubRepo =
  repo_id :: nat
  name :: string
  description :: "string option"
  language :: "string option"
  stargazers_count :: nat
  forks_count :: nat
  updated_at :: string
  html_url :: string
  topics :: "string list"
  owner :: Owner

text \<open>The element type of \<open>dummyRepos\<close> (lines 252-319): no field is nullable.\<close>

record DummyRepo =
  id_static :: nat
  name_static :: string
  description_static :: string
  language_static :: string
  stars :: nat
  forks :: nat
  updated :: string
  url :: string
  topics_static :: "string list"

text \<open>
  What one card shows: title, link target (the fetching variant only), description,
  topic badges, overflow badge, language indicator (the value put into the class name,
  and the name), star count, fork count, and the line with the date.  Counts are
  natural numbers.
\<close>

record card =
  card_title :: string
  card_link :: "string option"
  card_description :: string
  card_topics :: "string list"
  card_overflow :: "string option"
  card_language :: "(jsvalue \<times> string) option"
  card_stars :: string
  card_forks :: string
  card_updated :: string

text \<open>
  The topic badges (lines 171-182 and 429-440): \<open>topics.slice(0, 3)\<close>, then one more
  badge \<open>+{topics.length - 3}\<close> when \<open>topics.length > 3\<close>.
\<close>

definition topic_badges :: "string list \<Rightarrow> string list" where
  "topic_badges ts = take 3 ts"

definition overflow_badge :: "string list \<Rightarrow> string option" where
  "overflow_badge ts =
     (if length ts > 3 then Some (''+'' @ string_of_nat (length ts - 3)) else None)"

text \<open>The language indicator (lines 187-194 and 445-452): shown for a non-empty name.\<close>

definition language_indicator ::
    "(string \<times> string) list \<Rightarrow> string \<Rightarrow> (jsvalue \<times> string) option" where
  "language_indicator tbl lang =
     (if lang = [] then None else Some (language_color tbl lang, lang))"

text \<open>The card of the fetching variant (lines 154-212).\<close>

definition card_query :: "env \<Rightarrow> GitHubRepo \<Rightarrow> card" where
  "card_query e repo =
     \<lparr>card_title = name repo,
      card_link = Some (html_url repo),
      card_description =
        (case description repo of
           None \<Rightarrow> ''No description provided''
         | Some d \<Rightarrow> if d = [] then ''No description provided'' else d),
      card_topics = topic_badges (topics repo),
      card_overflow = overflow_badge (topics repo),
      card_language =
        (case language repo of
           None \<Rightarrow> None
         | Some l \<Rightarrow> language_indicator languageColors_query l),
      card_stars = toLocaleString e (stargazers_count repo),
      card_forks = string_of_nat (forks_count repo),
      card_updated = ''Updated '' @ formatDate e (updated_at repo)\<rparr>"

text \<open>The card of the static variant (lines 414-470).\<close>

definition card_static :: "env \<Rightarrow> DummyRepo \<Rightarrow> card" where
  "card_static e repo =
     \<lparr>card_title = name_static repo,
      card_link = None,
      card_description = description_static repo,
      card_topics = topic_badges (topics_static repo),
      card_overflow = overflow_badge (topics_static repo),
      card_language = language_indicator languageColors_static (language_static repo),
      card_stars = toLocaleString e (stars repo),
      card_forks = string_of_nat (forks repo),
      card_updated = ''Updated '' @ formatDate e (updated repo)\<rparr>"

subsection \<open>The page\<close>

text \<open>
  The results section is the spinner, the error text with its "Try Again" button, or
  the list: header (avatar image, heading, count badge), the grid of cards, and the
  "No public repositories found for this user." placeholder.  The page is the value
  of the JSX expression; the initials of the avatar fallback, the styling, and React's
  reconciliation of one page with the next are not part of the model.
\<close>

datatype results =
    Spinner
  | ErrorPanel string
  | RepoList string string string "card list" bool

record page =
  button_disabled :: bool
  button_label :: string
  results_section :: "results option"
  empty_state :: bool

definition placeholder_avatar :: "string \<Rightarrow> string" where
  "placeholder_avatar u = ''/placeholder.svg?height=32&width=32&query=github+user+'' @ u"

definition heading :: "string \<Rightarrow> string" where
  "heading u = u @ [CHR 0x27] @ ''s Repositories''"

definition count_badge :: "nat \<Rightarrow> string" where
  "count_badge n = string_of_nat n @ '' repositories''"

text \<open>
  What \<open>response.json()\<close> gives when it is called on a response: the parsed list, or
  a rejection with the message of the syntax error (an empty body, a body that is not
  JSON).  A JSON value is taken to be of the type that line 65 declares; nothing in
  the source checks it.  A request ends with a response (status and body) or with a
  transport error, on which \<open>fetch\<close> itself throws.
\<close>

datatype body = Json "GitHubRepo list" | NotJson string

datatype outcome = Response nat body | NetworkError string

text \<open>
  The browser events: typing into the input, a key press in the input, a click on the
  search button, a click on "Try Again", the expiry of one pending timeout of the
  static variant, the completion of one outstanding network request (named by its
  query key and run), and the end of the delay before a retry (named likewise).
\<close>

datatype event =
    Change string
  | KeyPress string
  | ClickSearch
  | ClickRetry
  | Timeout
  | Respond string nat outcome
  | RetryDelay string nat

record ui =
  username :: string
  searched :: bool

text \<open>Events are handled one at a time, each on the state the last one left.\<close>

fun run :: "(event \<Rightarrow> 's \<Rightarrow> 's) \<Rightarrow> event list \<Rightarrow> 's \<Rightarrow> 's" where
  "run step [] s = s"
| "run step (ev # evs) s = run step evs (step ev s)"

subsection \<open>The static variant (lines 239-495)\<close>

definition dummyRepos :: "DummyRepo list" where
  "dummyRepos =
     [\<lparr>id_static = 1, name_static = ''awesome-react-components'',
       description_static = ''A curated list of awesome React components and libraries for building modern web applications'',
       language_static = ''TypeScript'', stars = 2847, forks = 342, updated = ''2024-01-15'',
       url = ''https://github.com/username/awesome-react-components'',
       topics_static = [''react'', ''components'', ''ui'', ''typescript'']\<rparr>,
      \<lparr>id_static = 2, name_static = ''nextjs-dashboard'',
       description_static = ''A modern dashboard built with Next.js 14, featuring server components and app router'',
       language_static = ''JavaScript'', stars = 1523, forks = 189, updated = ''2024-01-12'',
       url = ''https://github.com/username/nextjs-dashboard'',
       topics_static = [''nextjs'', ''dashboard'', ''react'', ''tailwind'']\<rparr>,
      \<lparr>id_static = 3, name_static = ''api-gateway-service'',
       description_static = ''Microservices API gateway built with Node.js and Express, featuring rate limiting and authentication'',
       language_static = ''JavaScript'', stars = 892, forks = 156, updated = ''2024-01-10'',
       url = ''https://github.com/username/api-gateway-service'',
       topics_static = [''nodejs'', ''api'', ''microservices'', ''express'']\<rparr>,
      \<lparr>id_static = 4, name_static = ''ml-image-classifier'',
       description_static = ''Machine learning image classification model using TensorFlow and Python'',
       language_static = ''Python'', stars = 634, forks = 78, updated = ''2024-01-08'',
       url = ''https://github.com/username/ml-image-classifier'',
       topics_static = [''python'', ''machine-learning'', ''tensorflow'', ''ai'']\<rparr>,
      \<lparr>id_static = 5, name_static = ''mobile-expense-tracker'',
       description_static = ''Cross-platform mobile app for expense tracking built with React Native'',
       language_static = ''TypeScript'', stars = 445, forks = 67, updated = ''2024-01-05'',
       url = ''https://github.com/username/mobile-expense-tracker'',
       topics_static = [''react-native'', ''mobile'', ''typescript'', ''finance'']\<rparr>,
      \<lparr>id_static = 6, name_static = ''docker-dev-environment'',
       description_static = ''Docker compose setup for local development environment with multiple services'',
       language_static = ''Shell'', stars = 289, forks = 45, updated = ''2024-01-03'',
       url = ''https://github.com/username/docker-dev-environment'',
       topics_static = [''docker'', ''devops'', ''development'', ''containers'']\<rparr>]"

text \<open>
  The four \<open>useState\<close> cells of lines 331-334, and the number of \<open>setTimeout\<close>
  callbacks that are scheduled and have not run yet: each one is a simulated request
  in flight.
\<close>

record state_static = ui +
  repos :: "DummyRepo list"
  loading :: bool
  timers :: nat

definition initial_static :: state_static where
  "initial_static =
     \<lparr>username = [], searched = False, repos = [], loading = False, timers = 0\<rparr>"

text \<open>\<open>handleSearch\<close> (lines 336-347) up to the scheduling of the callback.\<close>

definition handleSearch_static :: "state_static \<Rightarrow> state_static" where
  "handleSearch_static s =
     (if trim (username s) = [] then s
      else s\<lparr>loading := True, searched := True, timers := Suc (timers s)\<rparr>)"

text \<open>The callback of lines 343-346.\<close>

definition timeout_static :: "state_static \<Rightarrow> state_static" where
  "timeout_static s = s\<lparr>repos := dummyRepos, loading := False\<rparr>"

text \<open>\<open>handleKeyPress\<close> (lines 349-353).\<close>

definition handleKeyPress_static :: "string \<Rightarrow> state_static \<Rightarrow> state_static" where
  "handleKeyPress_static key s = (if key = ''Enter'' then handleSearch_static s else s)"

text \<open>The \<open>disabled\<close> attribute of the button (line 386).\<close>

definition search_disabled_static :: "state_static \<Rightarrow> bool" where
  "search_disabled_static s = (loading s \<or> trim (username s) = [])"

text \<open>
  A disabled button delivers no click; the static variant has no "Try Again" button,
  no network and no retries.
\<close>

fun step_static :: "event \<Rightarrow> state_static \<Rightarrow> state_static" where
  "step_static (Change text) s = s\<lparr>username := text\<rparr>"
| "step_static (KeyPress key) s = handleKeyPress_static key s"
| "step_static ClickSearch s =
     (if search_disabled_static s then s else handleSearch_static s)"
| "step_static ClickRetry s = s"
| "step_static Timeout s =
     (if timers s = 0 then s else timeout_static (s\<lparr>timers := timers s - 1\<rparr>))"
| "step_static (Respond k r out) s = s"
| "step_static (RetryDelay k r) s = s"

text \<open>The JSX of lines 363-495.\<close>

definition render_static :: "env \<Rightarrow> state_static \<Rightarrow> page" where
  "render_static e s =
     \<lparr>button_disabled = search_disabled_static s,
      button_label = (if loading s then ''Searching...'' else ''Search''),
      results_section =
        (if searched s then
           Some (if loading s then Spinner
                 else RepoList (placeholder_avatar (username s)) (heading (username s))
                        (count_badge (length (repos s)))
                        (map (card_static e) (repos s))
                        (repos s = []))
         else None),
      empty_state = (\<not> searched s)\<rparr>"

text \<open>
  What holds of the static variant in every state it can reach: the list is empty or
  the fixed one; once a search has been made and nothing is loading it is the fixed
  one; while loading, a timeout is pending.
\<close>

definition inv_static :: "state_static \<Rightarrow> bool" where
  "inv_static s =
     ((repos s = [] \<or> repos s = dummyRepos)
      \<and> (searched s \<and> \<not> loading s \<longrightarrow> repos s = dummyRepos)
      \<and> (loading s \<longrightarrow> 0 < timers s \<and> searched s))"

subsection \<open>The query layer\<close>

text \<open>
  \<open>useQuery\<close> belongs to TanStack Query, not to this repository; what the component
  relies on is modelled after the library's behaviour (version 5).  The client keeps
  one query per key, here per \<open>username\<close> (line 66).  A query holds the last data, the
  last error, whether a fetch is running, how often the running fetch has failed, the
  number of the running fetch, whether the retries of the running fetch are cancelled,
  and, while the delay before a retry runs, the error of the attempt that failed.
  With \<open>enabled: false\<close> (line 75) a fetch starts on \<open>refetch()\<close> only.  The length of
  the delays, garbage collection, and a page that is hidden or offline are not
  modelled.
\<close>

record query =
  q_data :: "GitHubRepo list option"
  q_error :: "string option"
  q_fetching :: bool
  q_failures :: nat
  q_run :: nat
  q_cancelled :: bool
  q_waiting :: "string option"

definition query_idle :: query where
  "query_idle =
     \<lparr>q_data = None, q_error = None, q_fetching = False, q_failures = 0, q_run = 0,
      q_cancelled = False, q_waiting = None\<rparr>"

text \<open>What the hook hands to the component (lines 59-65).\<close>

record useQueryResult =
  data :: "GitHubRepo list option"
  isLoading :: bool
  isError :: bool
  error :: "string option"

definition useQuery :: "query \<Rightarrow> useQueryResult" where
  "useQuery q =
     \<lparr>data = q_data q,
      isLoading = (q_fetching q \<and> q_data q = None \<and> q_error q = None),
      isError = (q_error q \<noteq> None),
      error = q_error q\<rparr>"

definition resolve :: "GitHubRepo list \<Rightarrow> query \<Rightarrow> query" where
  "resolve d q =
     q\<lparr>q_data := Some d, q_error := None, q_fetching := False, q_failures := 0,
       q_waiting := None\<rparr>"

definition reject :: "string \<Rightarrow> query \<Rightarrow> query" where
  "reject msg q =
     q\<lparr>q_error := Some msg, q_fetching := False, q_failures := Suc (q_failures q),
       q_waiting := None\<rparr>"

text \<open>
  The option \<open>retry\<close> says how many times a failed fetch is started again before the
  error is reported.  Neither \<open>useQuery\<close> (lines 65-76) nor \<open>new QueryClient()\<close>
  (line 15) sets it, so the library's default is in force: three retries in a browser.
\<close>

definition retry_default :: nat where
  "retry_default = 3"

subsection \<open>The fetching variant (lines 1-238)\<close>

text \<open>
  The component state: the two \<open>useState\<close> cells (lines 55-56), the client's queries,
  the requests in flight (key and run of the fetch that sent each), and a log of the
  URLs of all GET requests sent so far.
\<close>

record state_query = ui +
  cache :: "string \<Rightarrow> query"
  net :: "(string \<times> nat) list"
  sent :: "string list"

definition initial_query :: state_query where
  "initial_query =
     \<lparr>username = [], searched = False, cache = (\<lambda>k. query_idle), net = [], sent = []\<rparr>"

definition request_url :: "string \<Rightarrow> string" where
  "request_url u = ''https://api.github.com/users/'' @ u @ ''/repos?sort=updated&per_page=100''"

text \<open>
  \<open>queryFn\<close> (lines 67-74) in two halves: up to \<open>await fetch(...)\<close>, and from the
  outcome of the request on.  \<open>response.ok\<close> is a status from 200 to 299; with another
  status the body is not read.
\<close>

datatype suspended = Returned "GitHubRepo list" | Awaiting string

definition queryFn_call :: "string \<Rightarrow> suspended" where
  "queryFn_call u = (if trim u = [] then Returned [] else Awaiting (request_url u))"

definition ok :: "nat \<Rightarrow> bool" where
  "ok status = (200 \<le> status \<and> status \<le> 299)"

definition queryFn_resume :: "outcome \<Rightarrow> string + GitHubRepo list" where
  "queryFn_resume out =
     (case out of
        NetworkError msg \<Rightarrow> Inl msg
      | Response status b \<Rightarrow>
          if \<not> ok status then Inl (''GitHub API error: '' @ string_of_nat status)
          else (case b of Json d \<Rightarrow> Inr d | NotJson msg \<Rightarrow> Inl msg))"

text \<open>Running \<open>queryFn\<close> for the query of key \<open>k\<close>, whose record is \<open>q\<close> meanwhile.\<close>

definition run_queryFn :: "string \<Rightarrow> query \<Rightarrow> state_query \<Rightarrow> state_query" where
  "run_queryFn k q s =
     (case queryFn_call k of
        Returned d \<Rightarrow> s\<lparr>cache := (cache s)(k := resolve d q)\<rparr>
      | Awaiting u \<Rightarrow>
          s\<lparr>cache := (cache s)(k := q), net := net s @ [(k, q_run q)], sent := sent s @ [u]\<rparr>)"

text \<open>
  \<open>refetch()\<close>: a fetch that runs and has no data yet is joined, and its retries go
  on if they were cancelled; one that runs over older data is dropped (its request
  stays in flight, its outcome is ignored) and a new one is started.  Starting clears
  the error unless there is data.
\<close>

definition refetch :: "state_query \<Rightarrow> state_query" where
  "refetch s =
     (let k = username s; q = cache s k in
      if q_fetching q \<and> q_data q = None
      then s\<lparr>cache := (cache s)(k := q\<lparr>q_cancelled := False\<rparr>)\<rparr>
      else run_queryFn k
             (q\<lparr>q_fetching := True, q_failures := 0, q_run := Suc (q_run q),
                q_error := (if q_data q = None then None else q_error q),
                q_cancelled := False, q_waiting := None\<rparr>) s)"

text \<open>
  The text of the input changes (line 116).  With the text the key of the hook
  changes: the hook leaves the query of the old key, and the retries of a fetch that
  runs there are cancelled.  Coming back to a key does not take the cancellation
  back; only \<open>refetch()\<close> does.
\<close>

definition change_username :: "string \<Rightarrow> state_query \<Rightarrow> state_query" where
  "change_username text s =
     (if text = username s then s
      else
        let k = username s; q = cache s k in
        s\<lparr>username := text,
          cache := (cache s)(k := (if q_fetching q then q\<lparr>q_cancelled := True\<rparr> else q))\<rparr>)"

text \<open>
  The outcome of the request \<open>(k, r)\<close> arrives.  It counts only for the running fetch
  of that query.  A failure is reported at once when the retries are cancelled or
  \<open>retry\<close> failures have been counted; otherwise it is counted and the delay before
  the next attempt begins.
\<close>

definition respond :: "nat \<Rightarrow> string \<Rightarrow> nat \<Rightarrow> outcome \<Rightarrow> state_query \<Rightarrow> state_query" where
  "respond retry k r out s =
     (if (k, r) \<notin> set (net s) then s
      else
        let s' = s\<lparr>net := remove1 (k, r) (net s)\<rparr>; q = cache s k in
        if \<not> (q_fetching q \<and> q_run q = r) then s'
        else
          (case queryFn_resume out of
             Inr d \<Rightarrow> s'\<lparr>cache := (cache s)(k := resolve d q)\<rparr>
           | Inl msg \<Rightarrow>
               if q_cancelled q \<or> \<not> q_failures q < retry
               then s'\<lparr>cache := (cache s)(k := reject msg q)\<rparr>
               else s'\<lparr>cache := (cache s)(k :=
                        q\<lparr>q_failures := Suc (q_failures q), q_waiting := Some msg\<rparr>)\<rparr>))"

text \<open>
  The delay before a retry of the fetch \<open>r\<close> of query \<open>k\<close> is over: if the retries
  have been cancelled meanwhile the error is reported, otherwise \<open>queryFn\<close> runs
  again.
\<close>

definition retry_due :: "string \<Rightarrow> nat \<Rightarrow> state_query \<Rightarrow> state_query" where
  "retry_due k r s =
     (let q = cache s k in
      case q_waiting q of
        None \<Rightarrow> s
      | Some msg \<Rightarrow>
          if \<not> (q_fetching q \<and> q_run q = r) then s
          else if q_cancelled q then s\<lparr>cache := (cache s)(k := reject msg q)\<rparr>
          else run_queryFn k (q\<lparr>q_waiting := None\<rparr>) s)"

text \<open>\<open>handleSearch\<close> (lines 78-82) and \<open>handleKeyPress\<close> (lines 84-88).\<close>

definition handleSearch_query :: "state_query \<Rightarrow> state_query" where
  "handleSearch_query s =
     (if trim (username s) = [] then s else refetch (s\<lparr>searched := True\<rparr>))"

definition handleKeyPress_query :: "string \<Rightarrow> state_query \<Rightarrow> state_query" where
  "handleKeyPress_query key s = (if key = ''Enter'' then handleSearch_query s else s)"

text \<open>
  The \<open>disabled\<close> attribute of the search button (line 121), and the condition under
  which the "Try Again" button is on the page (lines 129-140).
\<close>

definition search_disabled_query :: "state_query \<Rightarrow> bool" where
  "search_disabled_query s =
     (isLoading (useQuery (cache s (username s))) \<or> trim (username s) = [])"

definition retry_shown :: "state_query \<Rightarrow> bool" where
  "retry_shown s =
     (searched s \<and> \<not> isLoading (useQuery (cache s (username s)))
        \<and> isError (useQuery (cache s (username s))))"

fun step_query :: "nat \<Rightarrow> event \<Rightarrow> state_query \<Rightarrow> state_query" where
  "step_query retry (Change text) s = change_username text s"
| "step_query retry (KeyPress key) s = handleKeyPress_query key s"
| "step_query retry ClickSearch s =
     (if search_disabled_query s then s else handleSearch_query s)"
| "step_query retry ClickRetry s = (if retry_shown s then refetch s else s)"
| "step_query retry Timeout s = s"
| "step_query retry (Respond k r out) s = respond retry k r out s"
| "step_query retry (RetryDelay k r) s = retry_due k r s"

text \<open>The component as it is written: the retry option at its default.\<close>

definition GitHubRepoExplorer_step :: "event \<Rightarrow> state_query \<Rightarrow> state_query" where
  "GitHubRepoExplorer_step = step_query retry_default"

text \<open>The JSX of lines 98-237.\<close>

definition error_text :: "string option \<Rightarrow> string" where
  "error_text err =
     ''Error fetching repositories: '' @
       (case err of None \<Rightarrow> ''Unknown error''
        | Some msg \<Rightarrow> if msg = [] then ''Unknown error'' else msg)"

definition repo_list_query :: "env \<Rightarrow> string \<Rightarrow> GitHubRepo list option \<Rightarrow> results" where
  "repo_list_query e u d =
     RepoList
       (case d of Some (r # rs) \<Rightarrow> avatar_url (owner r) | _ \<Rightarrow> placeholder_avatar u)
       (heading u)
       (count_badge (case d of None \<Rightarrow> 0 | Some rs \<Rightarrow> length rs))
       (case d of None \<Rightarrow> [] | Some rs \<Rightarrow> map (card_query e) rs)
       (case d of None \<Rightarrow> False | Some rs \<Rightarrow> rs = [])"

definition render_query :: "env \<Rightarrow> state_query \<Rightarrow> page" where
  "render_query e s =
     (let r = useQuery (cache s (username s)) in
      \<lparr>button_disabled = search_disabled_query s,
       button_label = (if isLoading r then ''Searching...'' else ''Search''),
       results_section =
         (if searched s then
            Some (if isLoading r then Spinner
                  else if isError r then ErrorPanel (error_text (error r))
                  else repo_list_query e (username s) (data r))
          else None),
       empty_state = (\<not> searched s)\<rparr>)"


subsection \<open>Sample inputs\<close>

text \<open>
  A record on which the properties below are evaluated: a repository as the API may
  send it, with five topics, no description and a language name the colour table
  lacks.
\<close>

definition sample_repo :: GitHubRepo where
  "sample_repo =
     \<lparr>repo_id = 1, name = ''a'', description = None, language = Some ''Kotlin'',
      stargazers_count = 5, forks_count = 0, updated_at = ''2024-01-15T00:00:00Z'',
      html_url = ''https://github.com/octocat/a'',
      topics = [''t1'', ''t2'', ''t3'', ''t4'', ''t5''],
      owner = \<lparr>login = ''octocat'',
               avatar_url = ''https://avatars.githubusercontent.com/u/583231''\<rparr>\<rparr>"

section \<open>Properties\<close>

subsection \<open>Blank input\<close>

lemma dropWhile_all_Nil:
  assumes "\<forall>x \<in> set (dropWhile P xs). P x"
  shows "dropWhile P xs = []"
proof (rule ccontr)
  assume ne: "dropWhile P xs \<noteq> []"
  then have "\<not> P (hd (dropWhile P xs))" by (rule hd_dropWhile)
  moreover from ne have "hd (dropWhile P xs) \<in> set (dropWhile P xs)" by simp
  ultimately show False using assms by blast
qed

text \<open>\<open>!username.trim()\<close> holds exactly for the texts made of white space only.\<close>

lemma trim_eq_Nil_iff: "trim s = [] \<longleftrightarrow> (\<forall>c \<in> set s. isWhiteSpace c)"
proof
  assume "trim s = []"
  then have "\<forall>x \<in> set (dropWhile isWhiteSpace s). isWhiteSpace x"
    by (simp add: trim_def dropWhile_eq_Nil_conv)
  then have "dropWhile isWhiteSpace s = []" by (rule dropWhile_all_Nil)
  then show "\<forall>c \<in> set s. isWhiteSpace c" by (simp only: dropWhile_eq_Nil_conv)
next
  assume "\<forall>c \<in> set s. isWhiteSpace c"
  then have "dropWhile isWhiteSpace s = []" by (simp only: dropWhile_eq_Nil_conv)
  then have "trim s = rev (dropWhile isWhiteSpace (rev []))" by (simp only: trim_def)
  then show "trim s = []" by simp
qed

lemma trigger_static_blank:
  assumes "trim (username s) = []" and "ev = ClickSearch \<or> ev = KeyPress ''Enter''"
  shows "step_static ev s = s"
  using assms by (auto simp: handleKeyPress_static_def handleSearch_static_def)

lemma trigger_query_blank:
  assumes "trim (username s) = []" and "ev = ClickSearch \<or> ev = KeyPress ''Enter''"
  shows "step_query retry ev s = s"
  using assms by (auto simp: handleKeyPress_query_def handleSearch_query_def)

text \<open>
  C1.  When the input text is empty or consists of white space only, a click on the
  search button and the Enter key leave the component state as it is, in both
  variants: no request is sent and none is put in flight, no timeout is scheduled,
  the loading flag and the queries keep their values, and \<open>searched\<close> keeps its value;
  so where no search has been made yet, the page still shows the empty state and no
  results section.
\<close>

theorem C1_blank_trigger_is_noop:
  assumes blank: "\<forall>c \<in> set (username sq). isWhiteSpace c"
                 "\<forall>c \<in> set (username ss). isWhiteSpace c"
    and trigger: "ev = ClickSearch \<or> ev = KeyPress ''Enter''"
  shows "step_query retry ev sq = sq \<and> sent (step_query retry ev sq) = sent sq
       \<and> net (step_query retry ev sq) = net sq
       \<and> cache (step_query retry ev sq) = cache sq
       \<and> searched (step_query retry ev sq) = searched sq
       \<and> (\<not> searched sq \<longrightarrow>
            empty_state (render_query e (step_query retry ev sq))
            \<and> results_section (render_query e (step_query retry ev sq)) = None)
       \<and> step_static ev ss = ss \<and> timers (step_static ev ss) = timers ss
       \<and> loading (step_static ev ss) = loading ss
       \<and> searched (step_static ev ss) = searched ss
       \<and> (\<not> searched ss \<longrightarrow>
            empty_state (render_static e (step_static ev ss))
            \<and> results_section (render_static e (step_static ev ss)) = None)"
proof -
  have q: "step_query retry ev sq = sq"
    using blank(1) trigger by (intro trigger_query_blank) (simp_all add: trim_eq_Nil_iff)
  have s: "step_static ev ss = ss"
    using blank(2) trigger by (intro trigger_static_blank) (simp_all add: trim_eq_Nil_iff)
  show ?thesis
    unfolding q s by (simp add: render_query_def render_static_def Let_def)
qed

theorem C1_blank_trigger_witness:
  "step_query retry_default (KeyPress ''Enter'') (initial_query\<lparr>username := ''   ''\<rparr>)
     = initial_query\<lparr>username := ''   ''\<rparr>
   \<and> step_static ClickSearch (initial_static\<lparr>username := [CHR 0x09, CHR 0xA0]\<rparr>)
     = initial_static\<lparr>username := [CHR 0x09, CHR 0xA0]\<rparr>
   \<and> empty_state (render_static env_UTC
        (step_static ClickSearch (initial_static\<lparr>username := [CHR 0x09, CHR 0xA0]\<rparr>)))"
proof -
  have q: "\<forall>c \<in> set (username (initial_query\<lparr>username := ''   ''\<rparr>)). isWhiteSpace c"
    by (simp add: isWhiteSpace_def)
  have s: "\<forall>c \<in> set (username (initial_static\<lparr>username := [CHR 0x09, CHR 0xA0]\<rparr>)).
             isWhiteSpace c"
    by (simp add: isWhiteSpace_def)
  have n: "\<not> searched (initial_static\<lparr>username := [CHR 0x09, CHR 0xA0]\<rparr>)"
    by (simp add: initial_static_def)
  from C1_blank_trigger_is_noop [OF q s disjI2 [OF refl], of retry_default env_UTC]
       C1_blank_trigger_is_noop [OF q s disjI1 [OF refl], of retry_default env_UTC] n
  show ?thesis by blast
qed

subsection \<open>Triggers while a search is under way\<close>

text \<open>The button is disabled while loading, so a click starts nothing.\<close>

lemma click_while_loading_static: "loading s \<Longrightarrow> step_static ClickSearch s = s"
  by (simp add: search_disabled_static_def)

lemma click_while_loading_query:
  "isLoading (useQuery (cache s (username s))) \<Longrightarrow> step_query retry ClickSearch s = s"
  by (simp add: search_disabled_query_def)

text \<open>
  The input is not disabled, and \<open>handleKeyPress\<close> does not look at the loading flag:
  with a non-blank text every Enter schedules one more timeout.
\<close>

lemma enter_static_schedules:
  "trim (username s) \<noteq> [] \<Longrightarrow>
     timers (step_static (KeyPress ''Enter'') s) = Suc (timers s)"
  by (simp add: handleKeyPress_static_def handleSearch_static_def)

text \<open>
  C2.  In the static variant, after the text "octocat" and one Enter the component is
  loading with one simulated request in flight.  A click on the button then starts
  nothing, but a second Enter puts a second request in flight.
\<close>

theorem C2_enter_starts_second_fetch:
  "loading (run step_static [Change ''octocat'', KeyPress ''Enter''] initial_static)
   \<and> timers (run step_static [Change ''octocat'', KeyPress ''Enter''] initial_static) = 1
   \<and> timers (run step_static [Change ''octocat'', KeyPress ''Enter'', ClickSearch]
        initial_static) = 1
   \<and> timers (run step_static [Change ''octocat'', KeyPress ''Enter'', KeyPress ''Enter'']
        initial_static) = 2"
  by (simp add: initial_static_def handleKeyPress_static_def handleSearch_static_def
      search_disabled_static_def trim_def isWhiteSpace_def)

theorem C2_enter_starts_second_fetch_witness:
  "1 < timers (run step_static [Change ''octocat'', KeyPress ''Enter'', KeyPress ''Enter'']
         initial_static)"
  using C2_enter_starts_second_fetch by simp

text \<open>
  In the fetching variant the button is enabled again as soon as the text names a
  query that is not loading, so two requests can be in flight there as well.
\<close>

lemma query_two_requests_in_flight:
  "net (run GitHubRepoExplorer_step [Change ''a'', ClickSearch, Change ''b'', ClickSearch]
     initial_query) = [(''a'', 1), (''b'', 1)]"
  by code_simp

subsection \<open>The static list\<close>

lemma step_static_inv: "inv_static s \<Longrightarrow> inv_static (step_static ev s)"
  by (cases ev)
     (auto simp: inv_static_def handleKeyPress_static_def handleSearch_static_def
        timeout_static_def search_disabled_static_def)

lemma run_static_inv: "inv_static s \<Longrightarrow> inv_static (run step_static evs s)"
  by (induction evs arbitrary: s) (simp_all add: step_static_inv)

lemma initial_static_inv: "inv_static initial_static"
  by (simp add: inv_static_def initial_static_def)

lemma length_dummyRepos: "length dummyRepos = 6"
  by (simp add: dummyRepos_def)

text \<open>A search from a state that is not loading, followed by the timeout.\<close>

lemma completed_search_static:
  assumes "trim u \<noteq> []" and "ev = ClickSearch \<or> ev = KeyPress ''Enter''"
    and "\<not> loading s"
  shows "run step_static [Change u, ev, Timeout] s
           = s\<lparr>username := u, searched := True, repos := dummyRepos, loading := False\<rparr>"
  using assms
  by (auto simp: handleKeyPress_static_def handleSearch_static_def timeout_static_def
      search_disabled_static_def)

text \<open>
  C10.  In the static variant a completed search (text, trigger, timeout) for any two
  non-blank user names leaves the same list, \<open>dummyRepos\<close>, and the page shows the six
  cards of that list in its order; only the header carries the name.  More generally,
  in every state reachable from the initial one, a list that is on display is
  \<open>dummyRepos\<close>.
\<close>

theorem C10_static_list_independent_of_username:
  assumes nonblank: "trim u1 \<noteq> []" "trim u2 \<noteq> []"
    and trigger: "ev1 = ClickSearch \<or> ev1 = KeyPress ''Enter''"
                 "ev2 = ClickSearch \<or> ev2 = KeyPress ''Enter''"
    and idle: "\<not> loading s1" "\<not> loading s2"
  shows "repos (run step_static [Change u1, ev1, Timeout] s1) = dummyRepos
       \<and> repos (run step_static [Change u2, ev2, Timeout] s2)
           = repos (run step_static [Change u1, ev1, Timeout] s1)
       \<and> results_section (render_static e (run step_static [Change u1, ev1, Timeout] s1))
           = Some (RepoList (placeholder_avatar u1) (heading u1) ''6 repositories''
                     (map (card_static e) dummyRepos) False)
       \<and> results_section (render_static e (run step_static [Change u2, ev2, Timeout] s2))
           = Some (RepoList (placeholder_avatar u2) (heading u2) ''6 repositories''
                     (map (card_static e) dummyRepos) False)
       \<and> length (map (card_static e) dummyRepos) = 6
       \<and> (searched (run step_static evs initial_static)
            \<and> \<not> loading (run step_static evs initial_static)
          \<longrightarrow> repos (run step_static evs initial_static) = dummyRepos)"
proof -
  have six: "count_badge (length dummyRepos) = ''6 repositories''"
    by (simp add: length_dummyRepos count_badge_def string_of_nat.simps digit_char_def)
  have ne: "dummyRepos \<noteq> []"
    using length_dummyRepos by auto
  have r1: "run step_static [Change u1, ev1, Timeout] s1
              = s1\<lparr>username := u1, searched := True, repos := dummyRepos, loading := False\<rparr>"
    using nonblank(1) trigger(1) idle(1) by (rule completed_search_static)
  have r2: "run step_static [Change u2, ev2, Timeout] s2
              = s2\<lparr>username := u2, searched := True, repos := dummyRepos, loading := False\<rparr>"
    using nonblank(2) trigger(2) idle(2) by (rule completed_search_static)
  have reach: "inv_static (run step_static evs initial_static)"
    by (rule run_static_inv) (rule initial_static_inv)
  show ?thesis
    unfolding r1 r2 using six ne reach
    by (simp add: render_static_def length_dummyRepos inv_static_def)
qed

theorem C10_static_list_witness:
  "repos (run step_static [Change ''alice'', ClickSearch, Timeout] initial_static)
     = repos (run step_static [Change ''bob'', KeyPress ''Enter'', Timeout] initial_static)
   \<and> repos (run step_static [Change ''alice'', ClickSearch, Timeout] initial_static)
     = dummyRepos"
proof -
  have a: "trim ''alice'' \<noteq> []" and b: "trim ''bob'' \<noteq> []"
    by (simp_all add: trim_def isWhiteSpace_def)
  have i: "\<not> loading initial_static"
    by (simp add: initial_static_def)
  from C10_static_list_independent_of_username
         [OF a b disjI1 [OF refl] disjI2 [OF refl] i i, of env_UTC "[]"]
  show ?thesis by simp
qed

subsection \<open>Decimal text\<close>

lemma digit_char_code: "d < 10 \<Longrightarrow> (of_char (digit_char d) :: nat) = 48 + d"
proof -
  assume "d < 10"
  then have "d \<in> {0,1,2,3,4,5,6,7,8,9}" by auto
  then show ?thesis by (auto simp: digit_char_def)
qed

lemma string_of_nat_digits:
  "\<forall>c \<in> set (string_of_nat n). 48 \<le> (of_char c :: nat) \<and> (of_char c :: nat) \<le> 57"
proof (induction n rule: string_of_nat.induct)
  case (1 n)
  show ?case
  proof (cases "n < 10")
    case True
    then show ?thesis by (simp add: string_of_nat.simps [of n] digit_char_code)
  next
    case False
    have "n mod 10 < 10" by simp
    then have "(of_char (digit_char (n mod 10)) :: nat) = 48 + n mod 10"
      by (rule digit_char_code)
    with False 1 show ?thesis by (simp add: string_of_nat.simps [of n])
  qed
qed

lemma string_of_nat_nonempty: "string_of_nat n \<noteq> []"
  by (simp add: string_of_nat.simps [of n])

lemma foldl_decimal:
  "foldl (\<lambda>a c. 10 * a + (of_char c - 48)) 0 (string_of_nat n) = n"
proof (induction n rule: string_of_nat.induct)
  case (1 n)
  show ?case
  proof (cases "n < 10")
    case True
    then show ?thesis by (simp add: string_of_nat.simps [of n] digit_char_code)
  next
    case False
    have "n mod 10 < 10" by simp
    then have "(of_char (digit_char (n mod 10)) :: nat) = 48 + n mod 10"
      by (rule digit_char_code)
    with False 1 show ?thesis by (simp add: string_of_nat.simps [of n])
  qed
qed

text \<open>The decimal text of a number reads back as that number.\<close>

lemma number_of_string_of_nat: "number_of (string_of_nat n) = Some n"
  using string_of_nat_digits [of n]
  by (simp add: number_of_def string_of_nat_nonempty foldl_decimal)

subsection \<open>Topic badges\<close>

text \<open>
  C6.  In both variants a card shows the first three topics of its record, in order
  (\<open>min T 3\<close> badges for \<open>T\<close> topics), and an overflow badge exactly when \<open>T > 3\<close>,
  whose text is \<open>+\<close> followed by the decimal text of \<open>T - 3\<close>.  A record with five
  topics gets three topic badges and the badge \<open>+2\<close>.
\<close>

theorem C6_topic_badges:
  "card_topics (card_query e r) = take 3 (topics r)
   \<and> length (card_topics (card_query e r)) = min (length (topics r)) 3
   \<and> card_overflow (card_query e r)
       = (if 3 < length (topics r)
          then Some (''+'' @ string_of_nat (length (topics r) - 3)) else None)
   \<and> card_topics (card_static e d) = take 3 (topics_static d)
   \<and> length (card_topics (card_static e d)) = min (length (topics_static d)) 3
   \<and> card_overflow (card_static e d)
       = (if 3 < length (topics_static d)
          then Some (''+'' @ string_of_nat (length (topics_static d) - 3)) else None)
   \<and> number_of (string_of_nat (length (topics r) - 3)) = Some (length (topics r) - 3)
   \<and> (length (topics r) = 5 \<longrightarrow>
         length (card_topics (card_query e r)) = 3
         \<and> card_overflow (card_query e r) = Some ''+2'')
   \<and> (length (topics_static d) = 5 \<longrightarrow>
         length (card_topics (card_static e d)) = 3
         \<and> card_overflow (card_static e d) = Some ''+2'')"
proof -
  have two: "string_of_nat 2 = ''2''"
    by (simp add: string_of_nat.simps digit_char_def)
  show ?thesis
    by (simp add: card_query_def card_static_def topic_badges_def overflow_badge_def
        number_of_string_of_nat two)
qed

theorem C6_topic_badges_witness:
  "card_topics (card_query env_UTC sample_repo) = [''t1'', ''t2'', ''t3'']
   \<and> card_overflow (card_query env_UTC sample_repo) = Some ''+2''"
proof -
  have five: "length (topics sample_repo) = 5"
    by (simp add: sample_repo_def)
  note t = C6_topic_badges [of env_UTC sample_repo "hd dummyRepos"]
  from t have "card_topics (card_query env_UTC sample_repo) = take 3 (topics sample_repo)"
    by blast
  moreover from t five have "card_overflow (card_query env_UTC sample_repo) = Some ''+2''"
    by blast
  ultimately show ?thesis by (simp add: sample_repo_def)
qed

subsection \<open>Language colours\<close>

text \<open>
  A name that is a key of the table gets the table's colour; a name that is neither
  a key nor the name of a member of \<open>Object.prototype\<close> gets the fallback; a name of
  such a member gets that member.
\<close>

lemma distinct_keys_query: "distinct (map fst languageColors_query)"
  by (simp add: languageColors_query_def)

lemma distinct_keys_static: "distinct (map fst languageColors_static)"
  by (simp add: languageColors_static_def)

lemma language_color_own:
  assumes "distinct (map fst tbl)" and "(l, c) \<in> set tbl" and "c \<noteq> []"
  shows "language_color tbl l = String c"
proof -
  from assms(1,2) have "map_of tbl l = Some c" by simp
  with assms(3) show ?thesis
    by (simp add: language_color_def get_property_def truthy_def)
qed

lemma language_color_unknown:
  assumes "l \<notin> fst ` set tbl" and "l \<notin> set Object_prototype"
  shows "language_color tbl l = String ''bg-gray-400''"
proof -
  from assms(1) have "map_of tbl l = None" by (simp add: map_of_eq_None_iff)
  with assms(2) show ?thesis
    by (simp add: language_color_def get_property_def truthy_def)
qed

lemma language_color_inherited:
  assumes "l \<notin> fst ` set tbl" and "l \<in> set Object_prototype"
  shows "language_color tbl l = Object l"
proof -
  from assms(1) have "map_of tbl l = None" by (simp add: map_of_eq_None_iff)
  with assms(2) show ?thesis
    by (simp add: language_color_def get_property_def truthy_def)
qed

lemma colors_nonempty_query: "(l, c) \<in> set languageColors_query \<Longrightarrow> c \<noteq> []"
  by (auto simp: languageColors_query_def)

lemma colors_nonempty_static: "(l, c) \<in> set languageColors_static \<Longrightarrow> c \<noteq> []"
  by (auto simp: languageColors_static_def)

text \<open>
  C7.  \<open>constructor\<close> is not a key of either table, yet the lookup for it does not
  give the fallback colour: the read finds the inherited \<open>Object.prototype.constructor\<close>,
  a function, which is truthy, so \<open>||\<close> keeps it and the card's indicator carries it
  in place of a colour class.  An unknown name such as \<open>Kotlin\<close> gets the fallback.
\<close>

theorem C7_inherited_name_gets_no_color:
  "''constructor'' \<notin> fst ` set languageColors_query
   \<and> language_color languageColors_query ''constructor'' = Object ''constructor''
   \<and> language_color languageColors_static ''constructor'' = Object ''constructor''
   \<and> language_color languageColors_query ''Kotlin'' = String ''bg-gray-400''
   \<and> card_language (card_query env_UTC (sample_repo\<lparr>language := Some ''constructor''\<rparr>))
       = Some (Object ''constructor'', ''constructor'')"
  by (simp add: language_color_def get_property_def truthy_def languageColors_query_def
      languageColors_static_def Object_prototype_def card_query_def language_indicator_def)

theorem C7_inherited_name_witness:
  "language_color languageColors_query ''constructor'' \<noteq> String ''bg-gray-400''"
  using C7_inherited_name_gets_no_color by simp

subsection \<open>Descriptions and the card as a function\<close>





text \<open>The state of the static variant after a completed search for "alice".\<close>

lemma after_search_alice:
  "run step_static [Change ''alice'', ClickSearch, Timeout] initial_static
     = \<lparr>username = ''alice'', searched = True, repos = dummyRepos, loading = False,
        timers = 0\<rparr>"
  by (simp add: initial_static_def search_disabled_static_def handleSearch_static_def
      timeout_static_def trim_def isWhiteSpace_def)


subsection \<open>Outcomes of a request\<close>

lemma run_snoc: "run step (evs @ [ev]) s = step ev (run step evs s)"
  by (induction evs arbitrary: s) simp_all

lemma useQuery_resolve:
  "useQuery (resolve rs q) = \<lparr>data = Some rs, isLoading = False, isError = False, error = None\<rparr>"
  by (simp add: useQuery_def resolve_def)


lemma queryFn_resume_ok: "ok st \<Longrightarrow> queryFn_resume (Response st (Json rs)) = Inr rs"
  by (simp add: queryFn_resume_def)

lemma queryFn_resume_not_json:
  "ok st \<Longrightarrow> queryFn_resume (Response st (NotJson msg)) = Inl msg"
  by (simp add: queryFn_resume_def)


lemma respond_success:
  assumes "(k, r) \<in> set (net s)" and "q_fetching (cache s k)" and "q_run (cache s k) = r"
    and "ok st"
  shows "respond retry k r (Response st (Json rs)) s
           = s\<lparr>net := remove1 (k, r) (net s), cache := (cache s)(k := resolve rs (cache s k))\<rparr>"
  using assms by (simp add: respond_def queryFn_resume_ok Let_def)



text \<open>
  A response that does not answer the running fetch of the query on display leaves
  the page as it is.
\<close>

lemma respond_other_key:
  assumes "username s \<noteq> k"
  shows "render_query e (respond retry k r out s) = render_query e s"
  using assms
  by (auto simp: respond_def render_query_def search_disabled_query_def Let_def
      split: sum.splits)

lemma respond_dropped_fetch:
  assumes "\<not> (q_fetching (cache s k) \<and> q_run (cache s k) = r)"
  shows "render_query e (respond retry k r out s) = render_query e s"
  using assms
  by (auto simp: respond_def render_query_def search_disabled_query_def Let_def)















subsection \<open>Successful requests\<close>

lemma fun_upd_const: "(\<lambda>k. c)(x := c) = (\<lambda>k. c)"
  by (simp add: fun_eq_iff)

text \<open>The state after typing "octocat" and a click on the search button.\<close>

lemma after_search_octocat:
  "run (step_query retry) [Change ''octocat'', ClickSearch] initial_query
     = \<lparr>username = ''octocat'', searched = True,
        cache = (\<lambda>k. query_idle)(''octocat'' :=
           \<lparr>q_data = None, q_error = None, q_fetching = True, q_failures = 0, q_run = 1,
            q_cancelled = False, q_waiting = None\<rparr>),
        net = [(''octocat'', 1)], sent = [request_url ''octocat'']\<rparr>"
  by (simp add: initial_query_def search_disabled_query_def useQuery_def query_idle_def
      trim_def isWhiteSpace_def handleSearch_query_def refetch_def run_queryFn_def
      queryFn_call_def change_username_def Let_def fun_upd_const)

lemma six_repositories: "count_badge (length dummyRepos) = ''6 repositories''"
  by (simp add: length_dummyRepos count_badge_def string_of_nat.simps digit_char_def)

text \<open>A list that the static variant has on display is the fixed one.\<close>

lemma reachable_static_list:
  assumes "searched (run step_static evs initial_static)"
    and "\<not> loading (run step_static evs initial_static)"
  shows "results_section (render_static e (run step_static evs initial_static))
           = Some (RepoList (placeholder_avatar (username (run step_static evs initial_static)))
                     (heading (username (run step_static evs initial_static)))
                     ''6 repositories'' (map (card_static e) dummyRepos) False)"
proof -
  have "inv_static (run step_static evs initial_static)"
    by (rule run_static_inv) (rule initial_static_inv)
  with assms have r: "repos (run step_static evs initial_static) = dummyRepos"
    by (simp add: inv_static_def)
  have ne: "dummyRepos \<noteq> []" using length_dummyRepos by auto
  show ?thesis
    using assms ne by (simp add: render_static_def r six_repositories)
qed

text \<open>
  Against C4 as stated: the text is changed from "a" to "ab" while the request for
  "a" is in flight; the response then arrives with status 200 and one record, and the
  page shows no card ("0 repositories" under the heading for "ab").
\<close>

theorem C4_stale_response_counterexample:
  "ok 200
   \<and> results_section (render_query env_UTC (run GitHubRepoExplorer_step
        [Change ''a'', ClickSearch, Change ''ab'',
         Respond ''a'' 1 (Response 200 (Json [sample_repo]))] initial_query))
       = Some (RepoList (placeholder_avatar ''ab'') (heading ''ab'') ''0 repositories'' []
                 False)"
  by code_simp

text \<open>
  C4, amended.  When a response with a status from 200 to 299 that carries a list of
  \<open>N \<ge> 1\<close> records answers the running fetch of the query on display (the query of
  the text in the input, after a search), the page shows exactly \<open>N\<close> cards, the
  \<open>i\<close>-th card being the card of the \<open>i\<close>-th record, and no placeholder.  A response
  for another text than the one in the input, or for a fetch that is no longer the
  running one, leaves the page as it is.  The static variant shows one card per
  record of its list, in the order of the list.
\<close>

theorem C4_cards_of_the_response_on_display:
  "((k, r) \<in> set (net s) \<and> q_fetching (cache s k) \<and> q_run (cache s k) = r
      \<and> username s = k \<and> searched s \<and> ok st \<and> rs \<noteq> [] \<longrightarrow>
      results_section
          (render_query e (step_query retry (Respond k r (Response st (Json rs))) s))
        = Some (RepoList (avatar_url (owner (hd rs))) (heading k) (count_badge (length rs))
                  (map (card_query e) rs) False))
   \<and> length (map (card_query e) rs) = length rs
   \<and> (\<forall>i < length rs. map (card_query e) rs ! i = card_query e (rs ! i))
   \<and> (username s \<noteq> k \<or> \<not> (q_fetching (cache s k) \<and> q_run (cache s k) = r) \<longrightarrow>
        render_query e (step_query retry (Respond k r out) s) = render_query e s)
   \<and> (searched ss \<and> \<not> loading ss \<longrightarrow>
        results_section (render_static e ss)
          = Some (RepoList (placeholder_avatar (username ss)) (heading (username ss))
                    (count_badge (length (repos ss)))
                    (map (card_static e) (repos ss)) (repos ss = [])))
   \<and> length (map (card_static e) (repos ss)) = length (repos ss)
   \<and> (\<forall>i < length (repos ss).
         map (card_static e) (repos ss) ! i = card_static e (repos ss ! i))"
proof -
  have q: "results_section
          (render_query e (step_query retry (Respond k r (Response st (Json rs))) s))
        = Some (RepoList (avatar_url (owner (hd rs))) (heading k) (count_badge (length rs))
                  (map (card_query e) rs) False)"
    if live: "(k, r) \<in> set (net s)" "q_fetching (cache s k)" "q_run (cache s k) = r"
      and shown: "username s = k" "searched s" and status: "ok st" and some: "rs \<noteq> []"
  proof -
    have step: "step_query retry (Respond k r (Response st (Json rs))) s
                  = s\<lparr>net := remove1 (k, r) (net s),
                       cache := (cache s)(k := resolve rs (cache s k))\<rparr>"
      using live status by (simp add: respond_success)
    from some obtain x xs where rs: "rs = x # xs" by (cases rs) auto
    show ?thesis
      unfolding step using shown
      by (simp add: render_query_def useQuery_resolve repo_list_query_def rs)
  qed
  have stale: "render_query e (step_query retry (Respond k r out) s) = render_query e s"
    if "username s \<noteq> k \<or> \<not> (q_fetching (cache s k) \<and> q_run (cache s k) = r)"
    using that respond_other_key [of s k e retry r out]
      respond_dropped_fetch [of s k r e retry out] by auto
  have s: "results_section (render_static e ss)
           = Some (RepoList (placeholder_avatar (username ss)) (heading (username ss))
                     (count_badge (length (repos ss)))
                     (map (card_static e) (repos ss)) (repos ss = []))"
    if "searched ss" "\<not> loading ss"
    using that by (simp add: render_static_def)
  from q stale s show ?thesis by simp
qed

theorem C4_cards_of_the_response_on_display_witness:
  "results_section (render_query env_UTC
      (step_query retry_default
         (Respond ''octocat'' 1 (Response 200 (Json [sample_repo, sample_repo\<lparr>name := ''b''\<rparr>])))
         (run (step_query retry_default) [Change ''octocat'', ClickSearch] initial_query)))
     = Some (RepoList ''https://avatars.githubusercontent.com/u/583231''
               (heading ''octocat'') ''2 repositories''
               [card_query env_UTC sample_repo,
                card_query env_UTC (sample_repo\<lparr>name := ''b''\<rparr>)] False)
   \<and> results_section (render_static env_UTC
        (run step_static [Change ''alice'', ClickSearch, Timeout] initial_static))
     = Some (RepoList (placeholder_avatar ''alice'') (heading ''alice'') ''6 repositories''
               (map (card_static env_UTC) dummyRepos) False)"
proof -
  let ?s = "run (step_query retry_default) [Change ''octocat'', ClickSearch] initial_query"
  let ?ss = "run step_static [Change ''alice'', ClickSearch, Timeout] initial_static"
  let ?rs = "[sample_repo, sample_repo\<lparr>name := ''b''\<rparr>]"
  have live: "(''octocat'', 1) \<in> set (net ?s) \<and> q_fetching (cache ?s ''octocat'')
      \<and> q_run (cache ?s ''octocat'') = 1 \<and> username ?s = ''octocat'' \<and> searched ?s
      \<and> ok 200 \<and> ?rs \<noteq> []"
    unfolding after_search_octocat by (simp add: ok_def)
  have st: "searched ?ss \<and> \<not> loading ?ss"
    unfolding after_search_alice by simp
  have two: "count_badge (Suc (Suc 0)) = ''2 repositories''"
    by (simp add: count_badge_def string_of_nat.simps digit_char_def)
  have ne: "dummyRepos \<noteq> []" using length_dummyRepos by auto
  note t = C4_cards_of_the_response_on_display
    [of "''octocat''" 1 ?s 200 ?rs env_UTC retry_default "NetworkError []" ?ss]
  from t live have
    "results_section (render_query env_UTC
          (step_query retry_default (Respond ''octocat'' 1 (Response 200 (Json ?rs))) ?s))
        = Some (RepoList (avatar_url (owner (hd ?rs))) (heading ''octocat'')
                  (count_badge (length ?rs)) (map (card_query env_UTC) ?rs) False)"
    by blast
  also have "RepoList (avatar_url (owner (hd ?rs))) (heading ''octocat'')
                  (count_badge (length ?rs)) (map (card_query env_UTC) ?rs) False
        = RepoList ''https://avatars.githubusercontent.com/u/583231''
               (heading ''octocat'') ''2 repositories''
               [card_query env_UTC sample_repo,
                card_query env_UTC (sample_repo\<lparr>name := ''b''\<rparr>)] False"
    by (simp add: two sample_repo_def)
  finally have fetching:
    "results_section (render_query env_UTC
          (step_query retry_default (Respond ''octocat'' 1 (Response 200 (Json ?rs))) ?s))
        = Some (RepoList ''https://avatars.githubusercontent.com/u/583231''
               (heading ''octocat'') ''2 repositories''
               [card_query env_UTC sample_repo,
                card_query env_UTC (sample_repo\<lparr>name := ''b''\<rparr>)] False)" .
  from t st have
    "results_section (render_static env_UTC ?ss)
          = Some (RepoList (placeholder_avatar (username ?ss)) (heading (username ?ss))
                    (count_badge (length (repos ?ss)))
                    (map (card_static env_UTC) (repos ?ss)) (repos ?ss = []))"
    by blast
  then have static:
    "results_section (render_static env_UTC ?ss)
     = Some (RepoList (placeholder_avatar ''alice'') (heading ''alice'') ''6 repositories''
               (map (card_static env_UTC) dummyRepos) False)"
    unfolding after_search_alice using ne by (simp add: six_repositories)
  from fetching static show ?thesis by (rule conjI)
qed

text \<open>
  Against C5 as stated: the text is changed from "a" to "ab" while the request for
  "a" is in flight; the response then arrives with status 200 and the empty list, and
  the page shows "0 repositories" without the placeholder.
\<close>

theorem C5_stale_response_counterexample:
  "ok 200
   \<and> results_section (render_query env_UTC (run GitHubRepoExplorer_step
        [Change ''a'', ClickSearch, Change ''ab'',
         Respond ''a'' 1 (Response 200 (Json []))] initial_query))
       = Some (RepoList (placeholder_avatar ''ab'') (heading ''ab'') ''0 repositories'' []
                 False)"
  by code_simp

text \<open>
  C5, amended.  When a response with a status from 200 to 299 that carries the empty
  list answers the running fetch of the query on display, the page shows the list
  section with no card and with the "No public repositories found for this user."
  placeholder; the query is not in error and no "Try Again" button is shown.  A
  response for another text than the one in the input, or for a fetch that is no
  longer the running one, leaves the page as it is.  The static variant never has an
  empty list on display: in every state it can reach, a list on display is the six
  fixed records, and the placeholder is never shown.
\<close>

theorem C5_empty_list_on_display:
  "((k, r) \<in> set (net s) \<and> q_fetching (cache s k) \<and> q_run (cache s k) = r
      \<and> username s = k \<and> searched s \<and> ok st \<longrightarrow>
      results_section
          (render_query e (step_query retry (Respond k r (Response st (Json []))) s))
        = Some (RepoList (placeholder_avatar k) (heading k) ''0 repositories'' [] True)
      \<and> \<not> isError (useQuery
            (cache (step_query retry (Respond k r (Response st (Json []))) s) k))
      \<and> \<not> retry_shown (step_query retry (Respond k r (Response st (Json []))) s))
   \<and> (username s \<noteq> k \<or> \<not> (q_fetching (cache s k) \<and> q_run (cache s k) = r) \<longrightarrow>
        render_query e (step_query retry (Respond k r out) s) = render_query e s)
   \<and> (searched (run step_static evs initial_static)
        \<and> \<not> loading (run step_static evs initial_static) \<longrightarrow>
        results_section (render_static e (run step_static evs initial_static))
          = Some (RepoList (placeholder_avatar (username (run step_static evs initial_static)))
                    (heading (username (run step_static evs initial_static)))
                    ''6 repositories'' (map (card_static e) dummyRepos) False))
   \<and> (\<forall>a h c cs. results_section (render_static e (run step_static evs initial_static))
                      \<noteq> Some (RepoList a h c cs True))"
proof -
  have zero: "count_badge 0 = ''0 repositories''"
    by (simp add: count_badge_def string_of_nat.simps digit_char_def)
  have q: "results_section
          (render_query e (step_query retry (Respond k r (Response st (Json []))) s))
        = Some (RepoList (placeholder_avatar k) (heading k) ''0 repositories'' [] True)
      \<and> \<not> isError (useQuery
            (cache (step_query retry (Respond k r (Response st (Json []))) s) k))
      \<and> \<not> retry_shown (step_query retry (Respond k r (Response st (Json []))) s)"
    if live: "(k, r) \<in> set (net s)" "q_fetching (cache s k)" "q_run (cache s k) = r"
      and shown: "username s = k" "searched s" and status: "ok st"
  proof -
    have step: "step_query retry (Respond k r (Response st (Json []))) s
                  = s\<lparr>net := remove1 (k, r) (net s),
                       cache := (cache s)(k := resolve [] (cache s k))\<rparr>"
      using live status by (simp add: respond_success)
    show ?thesis
      unfolding step using shown
      by (simp add: render_query_def useQuery_resolve repo_list_query_def zero
          retry_shown_def)
  qed
  have stale: "render_query e (step_query retry (Respond k r out) s) = render_query e s"
    if "username s \<noteq> k \<or> \<not> (q_fetching (cache s k) \<and> q_run (cache s k) = r)"
    using that respond_other_key [of s k e retry r out]
      respond_dropped_fetch [of s k r e retry out] by auto
  let ?ss = "run step_static evs initial_static"
  have list: "results_section (render_static e ?ss)
          = Some (RepoList (placeholder_avatar (username ?ss)) (heading (username ?ss))
                    ''6 repositories'' (map (card_static e) dummyRepos) False)"
    if "searched ?ss" "\<not> loading ?ss"
    using that by (rule reachable_static_list)
  have never: "results_section (render_static e ?ss) \<noteq> Some (RepoList a h c cs True)"
    for a h c cs
  proof (cases "searched ?ss \<and> \<not> loading ?ss")
    case True
    then show ?thesis using list by simp
  next
    case False
    then show ?thesis by (auto simp: render_static_def)
  qed
  from q stale list never show ?thesis by blast
qed

theorem C5_empty_list_on_display_witness:
  "results_section (render_query env_UTC
      (step_query retry_default (Respond ''octocat'' 1 (Response 200 (Json [])))
         (run (step_query retry_default) [Change ''octocat'', ClickSearch] initial_query)))
     = Some (RepoList (placeholder_avatar ''octocat'') (heading ''octocat'')
               ''0 repositories'' [] True)
   \<and> results_section (render_static env_UTC
        (run step_static [Change ''alice'', ClickSearch, Timeout] initial_static))
     = Some (RepoList (placeholder_avatar ''alice'') (heading ''alice'') ''6 repositories''
               (map (card_static env_UTC) dummyRepos) False)"
proof -
  let ?s = "run (step_query retry_default) [Change ''octocat'', ClickSearch] initial_query"
  let ?ss = "run step_static [Change ''alice'', ClickSearch, Timeout] initial_static"
  have live: "(''octocat'', 1) \<in> set (net ?s) \<and> q_fetching (cache ?s ''octocat'')
      \<and> q_run (cache ?s ''octocat'') = 1 \<and> username ?s = ''octocat'' \<and> searched ?s
      \<and> ok 200"
    unfolding after_search_octocat by (simp add: ok_def)
  have st: "searched ?ss \<and> \<not> loading ?ss"
    unfolding after_search_alice by simp
  have u: "username ?ss = ''alice''"
    unfolding after_search_alice by simp
  note t = C5_empty_list_on_display
    [of "''octocat''" 1 ?s 200 env_UTC retry_default "NetworkError []"
        "[Change ''alice'', ClickSearch, Timeout]"]
  from t live have fetching:
    "results_section (render_query env_UTC
          (step_query retry_default (Respond ''octocat'' 1 (Response 200 (Json []))) ?s))
        = Some (RepoList (placeholder_avatar ''octocat'') (heading ''octocat'')
               ''0 repositories'' [] True)"
    by blast
  from t st have
    "results_section (render_static env_UTC ?ss)
          = Some (RepoList (placeholder_avatar (username ?ss)) (heading (username ?ss))
                    ''6 repositories'' (map (card_static env_UTC) dummyRepos) False)"
    by blast
  then have static:
    "results_section (render_static env_UTC ?ss)
     = Some (RepoList (placeholder_avatar ''alice'') (heading ''alice'') ''6 repositories''
               (map (card_static env_UTC) dummyRepos) False)"
    by (simp only: u)
  from fetching static show ?thesis by (rule conjI)
qed

subsection \<open>Failed requests\<close>




subsection \<open>Dates\<close>

lemma parse_example: "parse_iso ''2024-01-15T00:00:00Z'' = Some 1705276800000"
  by code_simp

lemma Date_parse_example: "Date_parse e ''2024-01-15T00:00:00Z'' = Some 1705276800000"
  by (simp add: Date_parse_def parse_example)

lemma day_east:
  assumes "0 \<le> off" and "off < 1440"
  shows "(1705276800000 + off * 60000) div msPerDay = (19737 :: int)"
proof -
  have "(1705276800000 + off * 60000) div 86400000 = (19737 :: int)"
    using assms by simp
  then show ?thesis by (simp add: msPerDay_def)
qed

lemma day_west:
  assumes "- 1440 \<le> off" and "off < 0"
  shows "(1705276800000 + off * 60000) div msPerDay = (19736 :: int)"
proof -
  have "(1705276800000 + off * 60000) div 86400000 = (19736 :: int)"
    using assms by simp
  then show ?thesis by (simp add: msPerDay_def)
qed

lemma civil_examples:
  "civil_from_days 19737 = (2024, 1, 15)" "civil_from_days 19736 = (2024, 1, 14)"
  by code_simp+

text \<open>The day count at some known dates.\<close>

lemma calendar_anchors:
  "days_from_civil 1970 1 1 = 0" "civil_from_days 0 = (1970, 1, 1)"
  "days_from_civil 2000 2 29 = 11016" "civil_from_days 11016 = (2000, 2, 29)"
  "days_from_civil 2000 3 1 = 11017" "civil_from_days 11017 = (2000, 3, 1)"
  "days_from_civil 2024 1 15 = 19737" "civil_from_days (- 1) = (1969, 12, 31)"
  by code_simp+

lemma decimal_examples:
  "string_of_nat 15 = ''15''" "string_of_nat 14 = ''14''" "string_of_nat 2024 = ''2024''"
  by code_simp+

text \<open>
  Against C8 as stated: on a host eight hours west of UTC the timestamp
  \<open>2024-01-15T00:00:00Z\<close> is rendered as "Jan 14, 2024", and so is the date-only
  string \<open>2024-01-15\<close> of the static list; a string that is no date is rendered as
  "Invalid Date".
\<close>

theorem C8_timezone_counterexample:
  "localOffset env_Pacific 1705276800000 = - 480
   \<and> formatDate env_Pacific ''2024-01-15T00:00:00Z'' = ''Jan 14, 2024''
   \<and> formatDate env_Pacific ''2024-01-15'' = ''Jan 14, 2024''
   \<and> formatDate env_UTC ''not a date'' = ''Invalid Date''"
  by code_simp

text \<open>
  C8, amended.  \<open>formatDate\<close> renders the date that the instant has in the host's
  time zone, in en-US as abbreviated month, day and year; a string that does not
  parse is rendered as "Invalid Date".  The timestamp \<open>2024-01-15T00:00:00Z\<close> is
  rendered as "Jan 15, 2024" where the host's offset from UTC at that instant is
  zero or positive (below 24 hours), and as "Jan 14, 2024" where it is negative.
\<close>

theorem C8_formatDate_local_date:
  "(0 \<le> localOffset e 1705276800000 \<and> localOffset e 1705276800000 < 1440 \<longrightarrow>
      formatDate e ''2024-01-15T00:00:00Z'' = ''Jan 15, 2024'')
   \<and> (- 1440 \<le> localOffset e 1705276800000 \<and> localOffset e 1705276800000 < 0 \<longrightarrow>
      formatDate e ''2024-01-15T00:00:00Z'' = ''Jan 14, 2024'')
   \<and> (Date_parse e s = Some t \<and> local_date e t = (y, m, d) \<and> 1 \<le> y \<longrightarrow>
      formatDate e s
        = month_short m @ '' '' @ string_of_nat (nat d) @ '', '' @ string_of_nat (nat y))
   \<and> (Date_parse e s = None \<longrightarrow> formatDate e s = ''Invalid Date'')"
proof -
  let ?off = "localOffset e 1705276800000"
  have east: "formatDate e ''2024-01-15T00:00:00Z'' = ''Jan 15, 2024''"
    if "0 \<le> ?off" "?off < 1440"
  proof -
    have "local_date e 1705276800000 = (2024, 1, 15)"
      using day_east [OF that] by (simp add: local_date_def civil_examples)
    then show ?thesis
      by (simp add: formatDate_def Date_parse_example toLocaleDateString_enUS_def
          month_short_def decimal_examples)
  qed
  have west: "formatDate e ''2024-01-15T00:00:00Z'' = ''Jan 14, 2024''"
    if "- 1440 \<le> ?off" "?off < 0"
  proof -
    have "local_date e 1705276800000 = (2024, 1, 14)"
      using day_west [OF that] by (simp add: local_date_def civil_examples)
    then show ?thesis
      by (simp add: formatDate_def Date_parse_example toLocaleDateString_enUS_def
          month_short_def decimal_examples)
  qed
  have shape: "formatDate e s
        = month_short m @ '' '' @ string_of_nat (nat d) @ '', '' @ string_of_nat (nat y)"
    if "Date_parse e s = Some t" "local_date e t = (y, m, d)" "1 \<le> y"
    using that by (simp add: formatDate_def toLocaleDateString_enUS_def)
  have invalid: "formatDate e s = ''Invalid Date''" if "Date_parse e s = None"
    using that by (simp add: formatDate_def)
  from east west shape invalid show ?thesis by blast
qed

theorem C8_formatDate_local_date_witness:
  "formatDate env_UTC ''2024-01-15T00:00:00Z'' = ''Jan 15, 2024''
   \<and> formatDate env_Pacific ''2024-01-15T00:00:00Z'' = ''Jan 14, 2024''"
proof -
  have u: "0 \<le> localOffset env_UTC 1705276800000" "localOffset env_UTC 1705276800000 < 1440"
    by (simp_all add: env_UTC_def)
  have p: "- 1440 \<le> localOffset env_Pacific 1705276800000"
      "localOffset env_Pacific 1705276800000 < 0"
    by (simp_all add: env_Pacific_def)
  from C8_formatDate_local_date [of env_UTC "''2024-01-15''" 0 0 0 0] u
  have "formatDate env_UTC ''2024-01-15T00:00:00Z'' = ''Jan 15, 2024''" by blast
  moreover from C8_formatDate_local_date [of env_Pacific "''2024-01-15''" 0 0 0 0] p
  have "formatDate env_Pacific ''2024-01-15T00:00:00Z'' = ''Jan 14, 2024''" by blast
  ultimately show ?thesis by simp
qed

end
